theory Spec2Isabelle
  imports Main "HOL-Library.AList"
begin

section \<open>Chains and events (sapphire/core/base/events.py)\<close>

text \<open>
  \<^verbatim>\<open>Chain\<close> is a frozen dataclass of two Python integers. Python integers are
  unbounded, so both fields are \<^typ>\<open>int\<close>. Equality of two chains is equality of the
  pair of fields, which is the equality of the record.
\<close>

record Chain =
  "context" :: int
  flow :: int

text \<open>The fields every event carries (class \<^verbatim>\<open>SapphireEvents.Event\<close>).\<close>

record Event =
  sender :: string
  timestamp :: string
  chain :: Chain

text \<open>Values of the \<^verbatim>\<open>Any\<close>-typed entries of \<^verbatim>\<open>AIResponseEvent.extras\<close>.\<close>

datatype pyany = AnyStr string | AnyInt int | AnyBool bool | AnyNone

text \<open>
  One constructor per event class, in the order of the source. The first argument is the
  inherited part; the others are the fields the class declares itself. \<^verbatim>\<open>ErrorEvent\<close>
  declares the single field \<^verbatim>\<open>error\<close>.
\<close>

datatype event =
    BaseEvent Event
  | InitCompleteEvent Event
  | LogEvent Event string string
  | ShutdownEvent Event bool string string
  | UserInputEvent Event string
  | CommandRegisterEvent Event string string string "string list \<Rightarrow> Chain \<Rightarrow> string"
  | CommandEvent Event string string "string list"
  | CommandExecutedEvent Event "string \<times> string \<times> string list" bool string
  | ConfirmationEvent Event string "string list" "string option"
  | ErrorEvent Event string
  | PromptEvent Event string
  | AIResponseEvent Event string "(string \<times> pyany) list"
  | ClientActivationEvent Event string
  | TaskRegisterEvent Event string string "string list" string "string list \<Rightarrow> Chain \<Rightarrow> string"
  | TaskEvent Event string string "string list"
  | TaskCompletionEvent Event string string "string list" bool string
  | TaskMapUpdatedEvent Event "(string \<times> (string \<times> string \<times> string list) list) list"

fun event_base :: "event \<Rightarrow> Event" where
  "event_base (BaseEvent b) = b"
| "event_base (InitCompleteEvent b) = b"
| "event_base (LogEvent b _ _) = b"
| "event_base (ShutdownEvent b _ _ _) = b"
| "event_base (UserInputEvent b _) = b"
| "event_base (CommandRegisterEvent b _ _ _ _) = b"
| "event_base (CommandEvent b _ _ _) = b"
| "event_base (CommandExecutedEvent b _ _ _) = b"
| "event_base (ConfirmationEvent b _ _ _) = b"
| "event_base (ErrorEvent b _) = b"
| "event_base (PromptEvent b _) = b"
| "event_base (AIResponseEvent b _ _) = b"
| "event_base (ClientActivationEvent b _) = b"
| "event_base (TaskRegisterEvent b _ _ _ _ _) = b"
| "event_base (TaskEvent b _ _ _) = b"
| "event_base (TaskCompletionEvent b _ _ _ _ _) = b"
| "event_base (TaskMapUpdatedEvent b _) = b"

section \<open>The identifier allocator\<close>

text \<open>
  The class attributes \<^verbatim>\<open>_intern_chain\<close> and \<^verbatim>\<open>_current_context\<close> are the
  allocator's state; every operation takes the state and returns the new one. In this
  section a call runs to its end before the next one starts; calls that overlap are the
  subject of a later section.
\<close>

record allocator =
  intern_chain :: Chain
  current_context :: int

definition initial_allocator :: allocator where
  "initial_allocator =
     \<lparr>intern_chain = \<lparr>context = 0, flow = 0\<rparr>, current_context = 0\<rparr>"

text \<open>
  \<^verbatim>\<open>SapphireEvents.chain(event)\<close>: the argument is an event or \<^verbatim>\<open>None\<close>. With an
  event, its chain is returned. Otherwise the cursor is read, replaced by
  \<^verbatim>\<open>Chain(0, chain.flow + 1)\<close>, and the value read is returned.
\<close>

fun SapphireEvents_chain :: "allocator \<Rightarrow> event option \<Rightarrow> Chain \<times> allocator" where
  "SapphireEvents_chain s (Some e) = (chain (event_base e), s)"
| "SapphireEvents_chain s None =
     (let c = intern_chain s
      in (c, s\<lparr>intern_chain := \<lparr>context = 0, flow = flow c + 1\<rparr>\<rparr>))"

text \<open>\<^verbatim>\<open>SapphireEvents.new_context_chain()\<close>: the counter is advanced, then read.\<close>

definition SapphireEvents_new_context_chain :: "allocator \<Rightarrow> Chain \<times> allocator" where
  "SapphireEvents_new_context_chain s =
     (let s' = s\<lparr>current_context := current_context s + 1\<rparr>
      in (\<lparr>context = current_context s', flow = 0\<rparr>, s'))"

text \<open>
  A run of the allocator: a list of calls, executed in order. The result pairs every call
  with the chain it returned.
\<close>

datatype alloc_call = CallChain "event option" | CallNewContext

fun alloc_step :: "allocator \<Rightarrow> alloc_call \<Rightarrow> Chain \<times> allocator" where
  "alloc_step s (CallChain a) = SapphireEvents_chain s a"
| "alloc_step s CallNewContext = SapphireEvents_new_context_chain s"

fun alloc_run :: "allocator \<Rightarrow> alloc_call list \<Rightarrow> (alloc_call \<times> Chain) list \<times> allocator" where
  "alloc_run s [] = ([], s)"
| "alloc_run s (c # cs) =
     (let (r, s') = alloc_step s c;
          (rs, s'') = alloc_run s' cs
      in ((c, r) # rs, s''))"

text \<open>The chains returned by the calls without an event, and by the new-context calls.\<close>

fun is_fresh_call :: "alloc_call \<Rightarrow> bool" where
  "is_fresh_call (CallChain None) = True"
| "is_fresh_call _ = False"

fun is_context_call :: "alloc_call \<Rightarrow> bool" where
  "is_context_call CallNewContext = True"
| "is_context_call _ = False"

definition fresh_chains :: "(alloc_call \<times> Chain) list \<Rightarrow> Chain list" where
  "fresh_chains rs = map snd (filter (\<lambda>p. is_fresh_call (fst p)) rs)"

definition context_chains :: "(alloc_call \<times> Chain) list \<Rightarrow> Chain list" where
  "context_chains rs = map snd (filter (\<lambda>p. is_context_call (fst p)) rs)"

section \<open>Classes and exceptions\<close>

text \<open>
  The classes the module declares. \<^verbatim>\<open>Chain\<close> and \<^verbatim>\<open>Event\<close> have no declared base;
  every other class is declared as \<^verbatim>\<open>class X(Event)\<close>.
\<close>

datatype pytype =
    T_Chain | T_Event | T_InitCompleteEvent | T_LogEvent | T_ShutdownEvent
  | T_UserInputEvent | T_CommandRegisterEvent | T_CommandEvent | T_CommandExecutedEvent
  | T_ConfirmationEvent | T_ErrorEvent | T_PromptEvent | T_AIResponseEvent
  | T_ClientActivationEvent | T_TaskRegisterEvent | T_TaskEvent | T_TaskCompletionEvent
  | T_TaskMapUpdatedEvent

text \<open>The method resolution order of a class, without \<^verbatim>\<open>object\<close>.\<close>

fun mro :: "pytype \<Rightarrow> pytype list" where
  "mro T_Chain = [T_Chain]"
| "mro T_Event = [T_Event]"
| "mro t = [t, T_Event]"

definition issubclass :: "pytype \<Rightarrow> pytype \<Rightarrow> bool" where
  "issubclass c d = List.member (mro c) d"

text \<open>
  The built-in exception classes that occur, with Python's hierarchy: an exception is of
  class \<open>d\<close> when \<open>d\<close> is in the resolution order of its class. An exception is a
  class and the text it was raised with.
\<close>

datatype exc_class =
    BaseException | Exception | LookupError | IndexError | KeyError
  | ValueError | TypeError | AttributeError

fun exc_mro :: "exc_class \<Rightarrow> exc_class list" where
  "exc_mro BaseException = [BaseException]"
| "exc_mro Exception = [Exception, BaseException]"
| "exc_mro LookupError = [LookupError, Exception, BaseException]"
| "exc_mro IndexError = [IndexError, LookupError, Exception, BaseException]"
| "exc_mro KeyError = [KeyError, LookupError, Exception, BaseException]"
| "exc_mro ValueError = [ValueError, Exception, BaseException]"
| "exc_mro TypeError = [TypeError, Exception, BaseException]"
| "exc_mro AttributeError = [AttributeError, Exception, BaseException]"

definition exc_issubclass :: "exc_class \<Rightarrow> exc_class \<Rightarrow> bool" where
  "exc_issubclass c d = List.member (exc_mro c) d"

datatype py_exception = Raised exc_class string

fun exception_class :: "py_exception \<Rightarrow> exc_class" where
  "exception_class (Raised c _) = c"

section \<open>The event registry\<close>

text \<open>
  The namespace of class \<^verbatim>\<open>SapphireEvents\<close>, in the order of its body, with the entries
  Python adds. What matters of an attribute is whether it is a class, and which one.
\<close>

datatype attr =
    TypeObject pytype | StrObject | LockObject | ChainObject | IntObject | DictObject
  | ClassMethodObject | DescriptorObject

definition SapphireEvents_dict :: "(string \<times> attr) list" where
  "SapphireEvents_dict =
    [(''__module__'', StrObject),
     (''__doc__'', StrObject),
     (''Chain'', TypeObject T_Chain),
     (''_lock'', LockObject),
     (''_intern_chain'', ChainObject),
     (''_current_context'', IntObject),
     (''__annotations__'', DictObject),
     (''_intern_map'', DictObject),
     (''chain'', ClassMethodObject),
     (''new_context_chain'', ClassMethodObject),
     (''make_timestamp'', ClassMethodObject),
     (''serialize'', ClassMethodObject),
     (''Event'', TypeObject T_Event),
     (''InitCompleteEvent'', TypeObject T_InitCompleteEvent),
     (''LogEvent'', TypeObject T_LogEvent),
     (''ShutdownEvent'', TypeObject T_ShutdownEvent),
     (''UserInputEvent'', TypeObject T_UserInputEvent),
     (''CommandRegisterEvent'', TypeObject T_CommandRegisterEvent),
     (''CommandEvent'', TypeObject T_CommandEvent),
     (''CommandExecutedEvent'', TypeObject T_CommandExecutedEvent),
     (''ConfirmationEvent'', TypeObject T_ConfirmationEvent),
     (''ErrorEvent'', TypeObject T_ErrorEvent),
     (''PromptEvent'', TypeObject T_PromptEvent),
     (''AIResponseEvent'', TypeObject T_AIResponseEvent),
     (''ClientActivationEvent'', TypeObject T_ClientActivationEvent),
     (''TaskRegisterEvent'', TypeObject T_TaskRegisterEvent),
     (''TaskEvent'', TypeObject T_TaskEvent),
     (''TaskCompletionEvent'', TypeObject T_TaskCompletionEvent),
     (''TaskMapUpdatedEvent'', TypeObject T_TaskMapUpdatedEvent),
     (''__dict__'', DescriptorObject),
     (''__weakref__'', DescriptorObject)]"

text \<open>
  \<^verbatim>\<open>_intern_map\<close> is a dictionary from names to classes: an association list, updated as a
  dictionary is (a key keeps its place, a new key goes to the end).
\<close>

type_synonym registry = "(string \<times> pytype) list"

text \<open>
  One round of the loop of \<^verbatim>\<open>serialize\<close>: an attribute that is not a class is skipped; a
  class that \<^verbatim>\<open>issubclass(attr, SapphireEvents.Event)\<close> accepts is stored under its name.
\<close>

fun register_attr :: "string \<times> attr \<Rightarrow> registry \<Rightarrow> registry" where
  "register_attr (name, TypeObject t) m =
     (if issubclass t T_Event then AList.update name t m else m)"
| "register_attr (name, _) m = m"

text \<open>
  \<^verbatim>\<open>SapphireEvents.serialize(event)\<close>: an empty map is filled first; then the name is
  looked up, and a name that is not a key raises \<^verbatim>\<open>ValueError\<close>. The map is state, so
  it is returned with the result.
\<close>

definition SapphireEvents_serialize ::
    "registry \<Rightarrow> string \<Rightarrow> (py_exception + pytype) \<times> registry" where
  "SapphireEvents_serialize m event =
     (let m' = (if m = [] then fold register_attr SapphireEvents_dict m else m)
      in (case map_of m' event of
            None \<Rightarrow> Inl (Raised ValueError (''Unknown event: '' @ event))
          | Some t \<Rightarrow> Inr t,
          m'))"

text \<open>The map after the first call, whatever name that call asked for.\<close>

definition built_registry :: registry where
  "built_registry = snd (SapphireEvents_serialize [] [])"

text \<open>
  The sixteen names the specification lists as the resolvable ones, and the classes they
  name.
\<close>

definition concrete_event_types :: "pytype list" where
  "concrete_event_types =
    [T_InitCompleteEvent, T_LogEvent, T_ShutdownEvent, T_UserInputEvent,
     T_CommandRegisterEvent, T_CommandEvent, T_CommandExecutedEvent, T_ConfirmationEvent,
     T_ErrorEvent, T_PromptEvent, T_AIResponseEvent, T_ClientActivationEvent,
     T_TaskRegisterEvent, T_TaskEvent, T_TaskCompletionEvent, T_TaskMapUpdatedEvent]"

definition concrete_event_names :: "string list" where
  "concrete_event_names =
    [''InitCompleteEvent'', ''LogEvent'', ''ShutdownEvent'', ''UserInputEvent'',
     ''CommandRegisterEvent'', ''CommandEvent'', ''CommandExecutedEvent'',
     ''ConfirmationEvent'', ''ErrorEvent'', ''PromptEvent'', ''AIResponseEvent'',
     ''ClientActivationEvent'', ''TaskRegisterEvent'', ''TaskEvent'',
     ''TaskCompletionEvent'', ''TaskMapUpdatedEvent'']"

section \<open>Dataclasses\<close>

text \<open>
  Every class of the module is decorated with \<^verbatim>\<open>@dataclass(frozen = True)\<close>. The decorator
  reads the class body: an annotated name (\<^verbatim>\<open>name: type\<close> or \<^verbatim>\<open>name: type = default\<close>)
  declares a field, a plain assignment (\<^verbatim>\<open>name = value\<close>) sets a class attribute and
  declares nothing. The bodies below list the statements of each class in source order;
  the text of an annotation is left out (none is \<^verbatim>\<open>ClassVar\<close> or \<^verbatim>\<open>InitVar\<close>), and a
  docstring is no statement of interest.
\<close>

datatype pyval =
    VStr string | VInt int | VBool bool | VNone | VChain Chain | VList "pyval list"
  | VType string | VObject

datatype stmt = Annotated string "pyval option" | Assign string pyval | Def string | Pass

fun class_body :: "pytype \<Rightarrow> stmt list" where
  "class_body T_Chain =
     [Annotated ''context'' None, Annotated ''flow'' None,
      Def ''__str__'', Def ''__repr__'', Def ''__eq__'']"
| "class_body T_Event =
     [Annotated ''sender'' None, Annotated ''timestamp'' None, Annotated ''chain'' None]"
| "class_body T_InitCompleteEvent = [Pass]"
| "class_body T_LogEvent = [Annotated ''level'' None, Annotated ''message'' None]"
| "class_body T_ShutdownEvent =
     [Annotated ''emergency'' None, Annotated ''situation'' None,
      Annotated ''message'' (Some (VStr []))]"
| "class_body T_UserInputEvent = [Annotated ''message'' None]"
| "class_body T_CommandRegisterEvent =
     [Annotated ''module'' None, Annotated ''cmd'' None, Annotated ''info'' None,
      Annotated ''func'' None]"
| "class_body T_CommandEvent =
     [Annotated ''module'' None, Annotated ''cmd'' None, Annotated ''args'' None]"
| "class_body T_CommandExecutedEvent =
     [Annotated ''cmd'' None, Annotated ''success'' None, Annotated ''output'' None]"
| "class_body T_ConfirmationEvent =
     [Annotated ''message'' None, Annotated ''options'' None, Annotated ''selected'' None]"
| "class_body T_ErrorEvent = [Annotated ''error'' None, Assign ''message'' (VType ''str'')]"
| "class_body T_PromptEvent = [Annotated ''content'' None]"
| "class_body T_AIResponseEvent = [Annotated ''message'' None, Annotated ''extras'' None]"
| "class_body T_ClientActivationEvent = [Annotated ''message'' None]"
| "class_body T_TaskRegisterEvent =
     [Annotated ''module'' None, Annotated ''name'' None, Annotated ''args'' None,
      Annotated ''info'' None, Annotated ''func'' None]"
| "class_body T_TaskEvent =
     [Annotated ''module'' None, Annotated ''name'' None, Annotated ''args'' None]"
| "class_body T_TaskCompletionEvent =
     [Annotated ''module'' None, Annotated ''name'' None, Annotated ''args'' None,
      Annotated ''success'' None, Annotated ''output'' None]"
| "class_body T_TaskMapUpdatedEvent = [Annotated ''active_mods'' None]"

text \<open>
  The fields of a dataclass: those of its bases first, then its own, each with its default
  if it has one. The parameters of the generated \<^verbatim>\<open>__init__\<close> are the fields, in this
  order.
\<close>

fun stmt_field :: "stmt \<Rightarrow> (string \<times> pyval option) list \<Rightarrow> (string \<times> pyval option) list" where
  "stmt_field (Annotated n d) fs = AList.update n d fs"
| "stmt_field _ fs = fs"

definition dataclass_fields :: "pytype \<Rightarrow> (string \<times> pyval option) list" where
  "dataclass_fields t = fold (\<lambda>c fs. fold stmt_field (class_body c) fs) (rev (mro t)) []"

text \<open>The attributes a class body leaves on the class itself.\<close>

fun stmt_attr :: "stmt \<Rightarrow> (string \<times> pyval) list \<Rightarrow> (string \<times> pyval) list" where
  "stmt_attr (Annotated n (Some d)) as = AList.update n d as"
| "stmt_attr (Annotated n None) as = as"
| "stmt_attr (Assign n v) as = AList.update n v as"
| "stmt_attr (Def n) as = AList.update n VObject as"
| "stmt_attr Pass as = as"

definition class_dict :: "pytype \<Rightarrow> (string \<times> pyval) list" where
  "class_dict t = fold stmt_attr (class_body t) []"

fun find_class_attr :: "pytype list \<Rightarrow> string \<Rightarrow> pyval option" where
  "find_class_attr [] n = None"
| "find_class_attr (c # cs) n =
     (case map_of (class_dict c) n of Some v \<Rightarrow> Some v | None \<Rightarrow> find_class_attr cs n)"

text \<open>
  An instance is its class and its own attributes. The generated \<^verbatim>\<open>__init__\<close> binds the
  positional arguments to the first parameters and the keyword arguments by name, rejects a
  keyword that is no parameter or is bound already, takes the default of a parameter left
  unbound, and rejects a call that leaves a parameter without a value. Each failure is a
  \<^verbatim>\<open>TypeError\<close>; its text is abridged here.
\<close>

record pyobject =
  inst_type :: pytype
  inst_dict :: "(string \<times> pyval) list"

fun bind_keywords ::
    "string list \<Rightarrow> (string \<times> pyval) list \<Rightarrow> (string \<times> pyval) list \<Rightarrow>
     py_exception + (string \<times> pyval) list" where
  "bind_keywords params bound [] = Inr bound"
| "bind_keywords params bound ((k, v) # kws) =
     (if \<not> List.member params k
        then Inl (Raised TypeError (''unexpected keyword argument '' @ k))
      else if map_of bound k \<noteq> None
        then Inl (Raised TypeError (''multiple values for argument '' @ k))
      else bind_keywords params (bound @ [(k, v)]) kws)"

fun fill_fields ::
    "(string \<times> pyval option) list \<Rightarrow> (string \<times> pyval) list \<Rightarrow>
     py_exception + (string \<times> pyval) list" where
  "fill_fields [] bound = Inr []"
| "fill_fields ((n, d) # fs) bound =
     (case (case map_of bound n of Some v \<Rightarrow> Some v | None \<Rightarrow> d) of
        None \<Rightarrow> Inl (Raised TypeError (''missing required argument '' @ n))
      | Some v \<Rightarrow>
          (case fill_fields fs bound of
             Inl e \<Rightarrow> Inl e
           | Inr rest \<Rightarrow> Inr ((n, v) # rest)))"

definition construct ::
    "pytype \<Rightarrow> pyval list \<Rightarrow> (string \<times> pyval) list \<Rightarrow> py_exception + pyobject" where
  "construct t args kwargs =
     (let fs = dataclass_fields t; params = map fst fs
      in if length params < length args
           then Inl (Raised TypeError ''too many positional arguments'')
         else (case bind_keywords params (zip params args) kwargs of
                 Inl e \<Rightarrow> Inl e
               | Inr bound \<Rightarrow>
                   (case fill_fields fs bound of
                      Inl e \<Rightarrow> Inl e
                    | Inr d \<Rightarrow> Inr \<lparr>inst_type = t, inst_dict = d\<rparr>)))"

text \<open>Attribute access on an instance: its own attributes first, then those of its classes.\<close>

definition getattr :: "pyobject \<Rightarrow> string \<Rightarrow> py_exception + pyval" where
  "getattr i n =
     (case map_of (inst_dict i) n of
        Some v \<Rightarrow> Inr v
      | None \<Rightarrow>
          (case find_class_attr (mro (inst_type i)) n of
             Some v \<Rightarrow> Inr v
           | None \<Rightarrow> Inl (Raised AttributeError n)))"

section \<open>Strings and timestamps\<close>

text \<open>
  Strings are lists of characters, read as ASCII text. \<^verbatim>\<open>str.upper\<close> maps the letters
  \<^verbatim>\<open>a\<close> to \<^verbatim>\<open>z\<close> to capitals, \<^verbatim>\<open>str.capitalize\<close> puts the first character in upper
  case and the others in lower case; any other character is left as it is.
\<close>

definition upper_char :: "char \<Rightarrow> char" where
  "upper_char c =
     (case map_of (zip ''abcdefghijklmnopqrstuvwxyz'' ''ABCDEFGHIJKLMNOPQRSTUVWXYZ'') c of
        Some u \<Rightarrow> u | None \<Rightarrow> c)"

definition lower_char :: "char \<Rightarrow> char" where
  "lower_char c =
     (case map_of (zip ''ABCDEFGHIJKLMNOPQRSTUVWXYZ'' ''abcdefghijklmnopqrstuvwxyz'') c of
        Some l \<Rightarrow> l | None \<Rightarrow> c)"

definition str_upper :: "string \<Rightarrow> string" where
  "str_upper s = map upper_char s"

fun str_capitalize :: "string \<Rightarrow> string" where
  "str_capitalize [] = []"
| "str_capitalize (c # cs) = upper_char c # map lower_char cs"

definition digit_char :: "nat \<Rightarrow> char" where
  "digit_char n = ''0123456789'' ! (n mod 10)"

fun nat_digits :: "nat \<Rightarrow> string" where
  "nat_digits n =
     (if n < 10 then [digit_char n] else nat_digits (n div 10) @ [digit_char (n mod 10)])"

definition int_str :: "int \<Rightarrow> string" where
  "int_str i = (if i < 0 then CHR ''-'' # nat_digits (nat (- i)) else nat_digits (nat i))"

text \<open>
  \<^verbatim>\<open>SapphireEvents.make_timestamp()\<close> formats the wall clock with \<^verbatim>\<open>%H:%M:%S\<close>: the hour,
  minute and second of the clock reading, two digits each. The reading is a parameter.
\<close>

definition two_digits :: "nat \<Rightarrow> string" where
  "two_digits n = [digit_char (n div 10), digit_char n]"

definition SapphireEvents_make_timestamp :: "nat \<times> nat \<times> nat \<Rightarrow> string" where
  "SapphireEvents_make_timestamp now =
     (case now of (h, m, s) \<Rightarrow> two_digits h @ '':'' @ two_digits m @ '':'' @ two_digits s)"

section \<open>The logger (sapphire/logger/logger.py)\<close>

text \<open>Class \<^verbatim>\<open>Color\<close>: the escape sequences, \<^verbatim>\<open>colorify\<close> and \<^verbatim>\<open>level_map\<close>.\<close>

definition Color_RESET :: string where "Color_RESET = CHR 0x1B # ''[0m''"
definition Color_RED :: string where "Color_RED = CHR 0x1B # ''[31m''"
definition Color_GREEN :: string where "Color_GREEN = CHR 0x1B # ''[32m''"
definition Color_YELLOW :: string where "Color_YELLOW = CHR 0x1B # ''[33m''"
definition Color_MAGENTA :: string where "Color_MAGENTA = CHR 0x1B # ''[35m''"
definition Color_CYAN :: string where "Color_CYAN = CHR 0x1B # ''[36m''"

definition Color_colorify :: "string \<Rightarrow> string \<Rightarrow> string" where
  "Color_colorify text color = color @ text @ Color_RESET"

definition Color_level_map :: "(string \<times> string) list" where
  "Color_level_map =
     [(''debug'', Color_CYAN), (''info'', Color_GREEN), (''warning'', Color_YELLOW),
      (''critical'', Color_RED)]"

definition LEVELS :: "(string \<times> int) list" where
  "LEVELS = [(''debug'', 0), (''info'', 1), (''warning'', 2), (''critical'', 3)]"

text \<open>
  Modelled from the spec: \<^verbatim>\<open>SapphireConfig\<close> is not among the sources. It is the read-only
  key/value view of the module's configuration; \<^verbatim>\<open>get(key, default)\<close> gives the value of a
  key, and the default for a missing key. The values are the scalars a configuration file
  holds: strings, booleans and integers.
\<close>

datatype cfg_value = CfgStr string | CfgBool bool | CfgInt int

type_synonym SapphireConfig = "(string \<times> cfg_value) list"

definition config_get :: "SapphireConfig \<Rightarrow> string \<Rightarrow> cfg_value \<Rightarrow> cfg_value" where
  "config_get config key dflt = (case map_of config key of Some v \<Rightarrow> v | None \<Rightarrow> dflt)"

text \<open>What an f-string prints for a value, and the truth value of a value in a condition.\<close>

fun py_str :: "cfg_value \<Rightarrow> string" where
  "py_str (CfgStr s) = s"
| "py_str (CfgBool b) = (if b then ''True'' else ''False'')"
| "py_str (CfgInt i) = int_str i"

fun truthy :: "cfg_value \<Rightarrow> bool" where
  "truthy (CfgStr s) = (s \<noteq> [])"
| "truthy (CfgBool b) = b"
| "truthy (CfgInt i) = (i \<noteq> 0)"

text \<open>
  Modelled from the spec: \<^verbatim>\<open>SapphireModule.log(chain, level, message)\<close> is not among the
  sources. A producer stamps an event with sender, timestamp and chain and publishes it:
  the log event carries the module's name, the timestamp of the moment, the given chain,
  level and message, and goes to the emission callback.
\<close>

definition SapphireModule_log :: "string \<Rightarrow> string \<Rightarrow> Chain \<Rightarrow> string \<Rightarrow> string \<Rightarrow> event" where
  "SapphireModule_log name now c level message =
     LogEvent \<lparr>sender = name, timestamp = now, chain = c\<rparr> level message"

definition Logger_name :: string where
  "Logger_name = ''logger''"

text \<open>The attributes \<^verbatim>\<open>start\<close> sets on the logger.\<close>

record Logger =
  log_file :: string
  log_level :: string
  to_terminal :: cfg_value

text \<open>
  \<^verbatim>\<open>Logger.start()\<close>. The clock readings of the two possible calls of \<^verbatim>\<open>log\<close> and
  \<^verbatim>\<open>os.path.abspath\<close> are parameters. The result is the outcome (the exception raised, or
  the logger with its attributes set), the allocator afterwards, and the events given to
  the emission callback, in order. When \<^verbatim>\<open>logfile\<close> is not a string, \<^verbatim>\<open>log_file\<close> is
  never set, and reading it, after the chain of the first event was allocated, raises
  \<^verbatim>\<open>AttributeError\<close>.
\<close>

definition Logger_start ::
    "(nat \<Rightarrow> nat \<times> nat \<times> nat) \<Rightarrow> (string \<Rightarrow> string) \<Rightarrow> SapphireConfig \<Rightarrow> allocator \<Rightarrow>
     (py_exception + Logger) \<times> allocator \<times> event list" where
  "Logger_start clock abspath config a =
     (let path = config_get config ''logfile'' (CfgStr ''sapphire.log'');
          (c1, a1) = SapphireEvents_chain a None
      in case path of
           CfgStr file \<Rightarrow>
             (let e1 = SapphireModule_log Logger_name (SapphireEvents_make_timestamp (clock 0))
                         c1 ''info'' (''Now logging into file: '' @ abspath file);
                  level = config_get config ''level'' (CfgStr ''info'');
                  terminal = config_get config ''terminal'' (CfgBool True)
              in case (case level of
                         CfgStr l \<Rightarrow> if List.member (map fst LEVELS) l then Some l else None
                       | _ \<Rightarrow> None) of
                   Some l \<Rightarrow>
                     (Inr \<lparr>log_file = file, log_level = l, to_terminal = terminal\<rparr>, a1, [e1])
                 | None \<Rightarrow>
                     (let (c2, a2) = SapphireEvents_chain a1 None;
                          e2 = SapphireModule_log Logger_name
                                 (SapphireEvents_make_timestamp (clock 1)) c2 ''warning''
                                 (''Invalid log level specified in config.toml '' @ [CHR 0x27] @
                                  py_str level @ [CHR 0x27] @ ''. Defaulting to '' @
                                  [CHR 0x27] @ ''info'' @ [CHR 0x27])
                      in (Inr \<lparr>log_file = file, log_level = ''info'', to_terminal = terminal\<rparr>,
                          a2, [e1, e2])))
         | _ \<Rightarrow> (Inl (Raised AttributeError ''log_file''), a1, []))"

text \<open>
  The world the logger writes to: the files, as a dictionary from path to content, and the
  text printed so far. Opening a file in mode \<^verbatim>\<open>a+\<close> creates it when it is missing; the
  file system is taken to accept every append.
\<close>

record World =
  files :: "(string \<times> string) list"
  stdout :: string

definition append_file :: "string \<Rightarrow> string \<Rightarrow> World \<Rightarrow> World" where
  "append_file path text w =
     w\<lparr>files := AList.update path
                   ((case map_of (files w) path of Some old \<Rightarrow> old | None \<Rightarrow> []) @ text)
                   (files w)\<rparr>"

text \<open>\<^verbatim>\<open>Logger.file_log(event)\<close>, on the fields of the log event.\<close>

definition file_log_str :: "Event \<Rightarrow> string \<Rightarrow> string \<Rightarrow> string" where
  "file_log_str b level message =
     ''['' @ timestamp b @ ''] ['' @ str_upper level @ ''] ('' @ str_capitalize (sender b) @
     '') '' @ message @ [CHR 0x0A]"

definition Logger_file_log :: "Logger \<Rightarrow> Event \<Rightarrow> string \<Rightarrow> string \<Rightarrow> World \<Rightarrow> World" where
  "Logger_file_log L b level message w =
     append_file (log_file L) (file_log_str b level message) w"

text \<open>
  \<^verbatim>\<open>Logger.terminal_log(event)\<close>: a level that \<^verbatim>\<open>Color.level_map\<close> does not know raises
  \<^verbatim>\<open>KeyError\<close>; \<^verbatim>\<open>print\<close> ends the line.
\<close>

definition terminal_log_str :: "Event \<Rightarrow> string \<Rightarrow> string \<Rightarrow> string \<Rightarrow> string" where
  "terminal_log_str b level color message =
     (''['' @ timestamp b @ '']'') @ '' '' @
     Color_colorify (''['' @ str_upper level @ '']'') color @ '' '' @
     Color_colorify (''('' @ sender b @ '')'') Color_MAGENTA @ '' '' @ message"

definition Logger_terminal_log ::
    "Logger \<Rightarrow> Event \<Rightarrow> string \<Rightarrow> string \<Rightarrow> World \<Rightarrow> py_exception option \<times> World" where
  "Logger_terminal_log L b level message w =
     (case map_of Color_level_map level of
        None \<Rightarrow> (Some (Raised KeyError level), w)
      | Some color \<Rightarrow>
          (None, w\<lparr>stdout := stdout w @ terminal_log_str b level color message @ [CHR 0x0A]\<rparr>))"

text \<open>
  \<^verbatim>\<open>Logger.handle(event)\<close>: the exception raised, if any, and the world afterwards. A level
  that \<^verbatim>\<open>LEVELS\<close> does not know raises \<^verbatim>\<open>KeyError\<close>, the event's level first. An event
  that is neither a \<^verbatim>\<open>LogEvent\<close> nor a \<^verbatim>\<open>UserInputEvent\<close> matches no case.
\<close>

fun Logger_handle :: "Logger \<Rightarrow> event \<Rightarrow> World \<Rightarrow> py_exception option \<times> World" where
  "Logger_handle L (LogEvent b level message) w =
     (case map_of LEVELS level of
        None \<Rightarrow> (Some (Raised KeyError level), w)
      | Some r \<Rightarrow>
          (case map_of LEVELS (log_level L) of
             None \<Rightarrow> (Some (Raised KeyError (log_level L)), w)
           | Some t \<Rightarrow>
               if r \<ge> t
                 then (let w' = Logger_file_log L b level message w
                       in if truthy (to_terminal L)
                            then Logger_terminal_log L b level message w'
                            else (None, w'))
               else (None, w)))"
| "Logger_handle L (UserInputEvent b message) w = (None, w)"
| "Logger_handle L _ w = (None, w)"

text \<open>The level of a log event; no other event has one.\<close>

fun event_level :: "event \<Rightarrow> string option" where
  "event_level (LogEvent b level message) = Some level"
| "event_level _ = None"

section \<open>Overlapping calls of the allocator\<close>

text \<open>
  Callers on several threads can be inside the allocator at once. A call is split at the
  points where another thread can run: its statements in source order, a block under
  \<^verbatim>\<open>with cls._lock\<close> being one step, since the lock keeps every other holder out.

  \<^verbatim>\<open>chain()\<close> without an event first reads the cursor into its local \<^verbatim>\<open>chain\<close>
  (line 53, before the lock is taken), then stores \<^verbatim>\<open>Chain(0, chain.flow + 1)\<close> under
  the lock (lines 54 to 58) and returns the value it read. \<^verbatim>\<open>new_context_chain()\<close>
  first advances the counter under the lock (line 65), then reads the counter to build the
  chain it returns (lines 66 to 69, after the lock is released). \<^verbatim>\<open>chain(event)\<close> neither
  reads nor writes the allocator and has no part here.
\<close>

datatype call_state =
    ChainEntered
  | ChainRead Chain
  | ContextEntered
  | ContextAdvanced
  | Returned Chain

fun call_step :: "allocator \<Rightarrow> call_state \<Rightarrow> allocator \<times> call_state" where
  "call_step s ChainEntered = (s, ChainRead (intern_chain s))"
| "call_step s (ChainRead c) =
     (s\<lparr>intern_chain := \<lparr>context = 0, flow = flow c + 1\<rparr>\<rparr>, Returned c)"
| "call_step s ContextEntered =
     (s\<lparr>current_context := current_context s + 1\<rparr>, ContextAdvanced)"
| "call_step s ContextAdvanced = (s, Returned \<lparr>context = current_context s, flow = 0\<rparr>)"
| "call_step s (Returned c) = (s, Returned c)"

text \<open>
  A schedule names, step by step, the call that runs next; the calls are numbered from 0.
  A number that names no call is skipped.
\<close>

fun run_schedule :: "allocator \<Rightarrow> call_state list \<Rightarrow> nat list \<Rightarrow> allocator \<times> call_state list" where
  "run_schedule s ts [] = (s, ts)"
| "run_schedule s ts (i # sched) =
     (if i < length ts
        then (let (s', t') = call_step s (ts ! i)
              in run_schedule s' (ts[i := t']) sched)
      else run_schedule s ts sched)"

text \<open>The chains the calls that have returned gave back, in the order of the calls.\<close>

fun returned_chains :: "call_state list \<Rightarrow> Chain list" where
  "returned_chains [] = []"
| "returned_chains (Returned c # ts) = c # returned_chains ts"
| "returned_chains (_ # ts) = returned_chains ts"

section \<open>Properties of the allocator\<close>

lemma alloc_run_Cons_fst:
  "fst (alloc_run s (c # cs)) =
     (c, fst (alloc_step s c)) # fst (alloc_run (snd (alloc_step s c)) cs)"
  by (simp add: split_beta)

lemma alloc_run_Cons_snd:
  "snd (alloc_run s (c # cs)) = snd (alloc_run (snd (alloc_step s c)) cs)"
  by (simp add: split_beta)

lemma alloc_step_flow:
  "flow (intern_chain (snd (alloc_step s c))) =
     flow (intern_chain s) + (if is_fresh_call c then 1 else 0)"
  by (cases c rule: is_fresh_call.cases)
     (simp_all add: SapphireEvents_new_context_chain_def Let_def)

lemma alloc_step_fresh_result:
  "is_fresh_call c \<Longrightarrow> fst (alloc_step s c) = intern_chain s"
  by (cases c rule: is_fresh_call.cases) (simp_all add: Let_def)

lemma alloc_step_counter:
  "current_context (snd (alloc_step s c)) =
     current_context s + (if is_context_call c then 1 else 0)"
  by (cases c rule: is_fresh_call.cases)
     (simp_all add: SapphireEvents_new_context_chain_def Let_def)

lemma alloc_step_context_result:
  "is_context_call c \<Longrightarrow>
     fst (alloc_step s c) = \<lparr>context = current_context s + 1, flow = 0\<rparr>"
  by (cases c rule: is_context_call.cases)
     (simp_all add: SapphireEvents_new_context_chain_def Let_def)

lemma alloc_step_cursor_context:
  "context (intern_chain s) = 0 \<Longrightarrow> context (intern_chain (snd (alloc_step s c))) = 0"
  by (cases c rule: is_fresh_call.cases)
     (simp_all add: SapphireEvents_new_context_chain_def Let_def)

lemma fresh_chains_run:
  "fresh_chains (fst (alloc_run s cs)) =
     map (\<lambda>i. \<lparr>context = (if i = 0 then context (intern_chain s) else 0),
               flow = flow (intern_chain s) + int i\<rparr>)
       [0..<length (filter is_fresh_call cs)]"
proof (induction cs arbitrary: s)
  case Nil
  show ?case by (simp add: fresh_chains_def)
next
  case (Cons c cs)
  let ?s' = "snd (alloc_step s c)"
  have run: "fresh_chains (fst (alloc_run s (c # cs))) =
      (if is_fresh_call c then [fst (alloc_step s c)] else []) @
      fresh_chains (fst (alloc_run ?s' cs))"
    by (simp add: alloc_run_Cons_fst fresh_chains_def del: alloc_run.simps)
  show ?case
  proof (cases "is_fresh_call c")
    case True
    then have c: "c = CallChain None"
      by (cases c rule: is_fresh_call.cases) simp_all
    have s': "intern_chain ?s' = \<lparr>context = 0, flow = flow (intern_chain s) + 1\<rparr>"
      by (simp add: c Let_def)
    show ?thesis
      unfolding run Cons.IH[of ?s'] s'
      using True
      by (simp add: alloc_step_fresh_result map_upt_Suc del: upt_Suc alloc_step.simps)
  next
    case False
    then have "intern_chain ?s' = intern_chain s"
      by (cases c rule: is_fresh_call.cases)
         (simp_all add: SapphireEvents_new_context_chain_def Let_def)
    with False show ?thesis
      unfolding run Cons.IH[of ?s'] by simp
  qed
qed

lemma context_chains_run:
  "context_chains (fst (alloc_run s cs)) =
     map (\<lambda>i. \<lparr>context = current_context s + 1 + int i, flow = 0\<rparr>)
       [0..<length (filter is_context_call cs)]"
proof (induction cs arbitrary: s)
  case Nil
  show ?case by (simp add: context_chains_def)
next
  case (Cons c cs)
  let ?s' = "snd (alloc_step s c)"
  have run: "context_chains (fst (alloc_run s (c # cs))) =
      (if is_context_call c then [fst (alloc_step s c)] else []) @
      context_chains (fst (alloc_run ?s' cs))"
    by (simp add: alloc_run_Cons_fst context_chains_def del: alloc_run.simps)
  show ?case
    unfolding run Cons.IH[of ?s'] alloc_step_counter
    by (simp add: alloc_step_context_result map_upt_Suc del: upt_Suc alloc_step.simps)
qed


lemma alloc_run_cursor_context:
  "context (intern_chain s) = 0 \<Longrightarrow> context (intern_chain (snd (alloc_run s cs))) = 0"
proof (induction cs arbitrary: s)
  case Nil
  then show ?case by simp
next
  case (Cons c cs)
  from Cons.prems have "context (intern_chain (snd (alloc_step s c))) = 0"
    by (rule alloc_step_cursor_context)
  then show ?case
    unfolding alloc_run_Cons_snd by (rule Cons.IH)
qed

lemma upt_offsets_increasing: "sorted_wrt (<) (map (\<lambda>i. a + int i) [0..<n])"
  by (simp add: sorted_wrt_map sorted_wrt_iff_nth_less)

lemma upt_offsets_distinct: "distinct (map (\<lambda>i. a + int i) [0..<n])"
  by (simp add: distinct_map inj_on_def)

text \<open>
  Claim C8. For every event \<open>e\<close>, \<^verbatim>\<open>SapphireEvents.chain(e)\<close> returns the chain carried
  by \<open>e\<close>, unchanged, and leaves the allocator as it was: neither the cursor nor the
  context counter moves.
\<close>

theorem chain_existing_event:
  "fst (SapphireEvents_chain s (Some e)) = chain (event_base e) \<and>
   snd (SapphireEvents_chain s (Some e)) = s \<and>
   intern_chain (snd (SapphireEvents_chain s (Some e))) = intern_chain s \<and>
   current_context (snd (SapphireEvents_chain s (Some e))) = current_context s"
  by simp


lemma alloc_run_calls: "map fst (fst (alloc_run s cs)) = cs"
  by (induction cs arbitrary: s) (simp_all add: alloc_run_Cons_fst del: alloc_run.simps(2))

lemma alloc_run_flow:
  "flow (intern_chain (snd (alloc_run s cs))) =
     flow (intern_chain s) + int (length (filter is_fresh_call cs))"
  by (induction cs arbitrary: s)
     (simp_all add: alloc_run_Cons_snd alloc_step_flow del: alloc_run.simps(2) alloc_step.simps)

lemma alloc_run_counter:
  "current_context (snd (alloc_run s cs)) =
     current_context s + int (length (filter is_context_call cs))"
  by (induction cs arbitrary: s)
     (simp_all add: alloc_run_Cons_snd alloc_step_counter del: alloc_run.simps(2) alloc_step.simps)

lemma fresh_chains_all:
  assumes "\<forall>c \<in> set cs. is_fresh_call c"
  shows "fresh_chains (fst (alloc_run s cs)) = map snd (fst (alloc_run s cs))"
proof -
  have "\<forall>p \<in> set (fst (alloc_run s cs)). is_fresh_call (fst p)"
  proof
    fix p assume "p \<in> set (fst (alloc_run s cs))"
    then have "fst p \<in> set (map fst (fst (alloc_run s cs)))" by simp
    then have "fst p \<in> set cs" by (simp only: alloc_run_calls)
    with assms show "is_fresh_call (fst p)" by blast
  qed
  then show ?thesis by (simp add: fresh_chains_def)
qed

text \<open>
  Calls that do not overlap. A call of \<^verbatim>\<open>SapphireEvents.chain()\<close> without an event
  returns the cursor as it was before the call and advances the cursor's flow by one. Hence,
  in a run of calls made one after the other and started with the cursor's flow at
  \<open>f0\<close>, the \<open>N\<close> calls without an event return the flows
  \<open>f0, f0 + 1, ..., f0 + N - 1\<close> in this order. The last conjunct is the run that consists
  of such calls only.
\<close>

theorem chain_fresh_flows:
  "fst (SapphireEvents_chain s None) = intern_chain s \<and>
   flow (intern_chain (snd (SapphireEvents_chain s None))) = flow (intern_chain s) + 1 \<and>
   (let rs = fresh_chains (fst (alloc_run s cs));
        N = length (filter is_fresh_call cs);
        f0 = flow (intern_chain s)
    in length rs = N \<and>
       map flow rs = map (\<lambda>i. f0 + int i) [0..<N] \<and>
       distinct (map flow rs) \<and>
       (\<forall>f \<in> set (map flow rs). f0 \<le> f \<and> f < f0 + int N) \<and>
       flow (intern_chain (snd (alloc_run s cs))) = f0 + int N) \<and>
   map flow (map snd (fst (alloc_run s (replicate n (CallChain None))))) =
     map (\<lambda>i. flow (intern_chain s) + int i) [0..<n]"
proof -
  let ?f0 = "flow (intern_chain s)"
  have flows: "map flow (fresh_chains (fst (alloc_run s ds))) =
      map (\<lambda>i. ?f0 + int i) [0..<length (filter is_fresh_call ds)]" for ds
    by (simp add: fresh_chains_run)
  have len: "length (fresh_chains (fst (alloc_run s cs))) = length (filter is_fresh_call cs)"
    by (simp add: fresh_chains_run)
  have range: "\<forall>f \<in> set (map (\<lambda>i. ?f0 + int i) [0..<N]). ?f0 \<le> f \<and> f < ?f0 + int N" for N
    by auto
  have rep: "map flow (map snd (fst (alloc_run s (replicate n (CallChain None))))) =
      map (\<lambda>i. ?f0 + int i) [0..<n]"
    using flows[of "replicate n (CallChain None)"]
    by (simp add: fresh_chains_all)
  show ?thesis
    unfolding Let_def flows
    using len range rep
    by (simp add: Let_def upt_offsets_distinct alloc_run_flow del: alloc_run.simps)
qed

theorem chain_fresh_flows_witness:
  "(let rs = fresh_chains (fst (alloc_run initial_allocator
               [CallChain None, CallNewContext, CallChain None, CallChain None]))
    in map flow rs = [0, 1, 2] \<and> (\<forall>f \<in> set (map flow rs). 0 \<le> f \<and> f < 3))"
  using chain_fresh_flows [of initial_allocator
      "[CallChain None, CallNewContext, CallChain None, CallChain None]" 0]
  by (simp add: initial_allocator_def Let_def upt_rec)

text \<open>
  Calls that do not overlap. A call of \<^verbatim>\<open>SapphireEvents.new_context_chain()\<close> advances the
  context counter by one and returns the chain of the new counter value with flow 0. Hence,
  in a run of calls made one after the other and started with the counter at \<open>c0\<close>, the
  \<open>M\<close> new-context calls return the contexts \<open>c0 + 1, ..., c0 + M\<close> in this order, and
  every returned chain has flow 0.
\<close>

theorem new_context_increasing:
  "fst (SapphireEvents_new_context_chain s) = \<lparr>context = current_context s + 1, flow = 0\<rparr> \<and>
   current_context (snd (SapphireEvents_new_context_chain s)) = current_context s + 1 \<and>
   (let rs = context_chains (fst (alloc_run s cs));
        M = length (filter is_context_call cs);
        c0 = current_context s
    in length rs = M \<and>
       map context rs = map (\<lambda>i. c0 + 1 + int i) [0..<M] \<and>
       sorted_wrt (<) (map context rs) \<and>
       distinct (map context rs) \<and>
       (\<forall>r \<in> set rs. flow r = 0 \<and> c0 < context r) \<and>
       current_context (snd (alloc_run s cs)) = c0 + int M)"
proof -
  let ?c0 = "current_context s"
  let ?M = "length (filter is_context_call cs)"
  have ctxs: "map context (context_chains (fst (alloc_run s cs))) =
      map (\<lambda>i. ?c0 + 1 + int i) [0..<?M]"
    by (simp add: context_chains_run)
  have len: "length (context_chains (fst (alloc_run s cs))) = ?M"
    by (simp add: context_chains_run)
  have each: "\<forall>r \<in> set (context_chains (fst (alloc_run s cs))). flow r = 0 \<and> ?c0 < context r"
    by (auto simp: context_chains_run)
  have one: "fst (SapphireEvents_new_context_chain s) = \<lparr>context = ?c0 + 1, flow = 0\<rparr>"
    "current_context (snd (SapphireEvents_new_context_chain s)) = ?c0 + 1"
    by (simp_all add: SapphireEvents_new_context_chain_def Let_def)
  show ?thesis
    unfolding Let_def ctxs
    using len each one
    by (simp add: upt_offsets_distinct upt_offsets_increasing alloc_run_counter
        del: alloc_run.simps)
qed

theorem new_context_increasing_witness:
  "(let rs = context_chains (fst (alloc_run initial_allocator
               [CallNewContext, CallChain None, CallNewContext, CallNewContext]))
    in map context rs = [1, 2, 3] \<and> (\<forall>r \<in> set rs. flow r = 0 \<and> 0 < context r))"
  using new_context_increasing [of initial_allocator
      "[CallNewContext, CallChain None, CallNewContext, CallNewContext]"]
  by (simp add: initial_allocator_def Let_def upt_rec)

text \<open>
  Claim C10. The cursor starts with context 0, and every allocator operation keeps the
  cursor's context at 0. Hence every call of \<^verbatim>\<open>SapphireEvents.chain()\<close> without an event
  returns a chain of context 0, whatever new-context calls come before it or between two
  such calls.
\<close>

theorem cursor_context_zero:
  "context (intern_chain initial_allocator) = 0 \<and>
   (context (intern_chain s) = 0 \<longrightarrow>
      context (intern_chain (snd (SapphireEvents_chain s a))) = 0 \<and>
      context (intern_chain (snd (SapphireEvents_new_context_chain s))) = 0 \<and>
      context (fst (SapphireEvents_chain s None)) = 0 \<and>
      context (intern_chain (snd (alloc_run s cs))) = 0 \<and>
      (\<forall>r \<in> set (fresh_chains (fst (alloc_run s cs))). context r = 0))"
proof -
  have init: "context (intern_chain initial_allocator) = 0"
    by (simp add: initial_allocator_def)
  have step: "context (intern_chain (snd (SapphireEvents_chain s a))) = 0 \<and>
      context (intern_chain (snd (SapphireEvents_new_context_chain s))) = 0 \<and>
      context (fst (SapphireEvents_chain s None)) = 0 \<and>
      context (intern_chain (snd (alloc_run s cs))) = 0 \<and>
      (\<forall>r \<in> set (fresh_chains (fst (alloc_run s cs))). context r = 0)"
    if inv: "context (intern_chain s) = 0"
  proof -
    have "context (intern_chain (snd (alloc_step s (CallChain a)))) = 0"
      using inv by (rule alloc_step_cursor_context)
    moreover have "context (intern_chain (snd (alloc_step s CallNewContext))) = 0"
      using inv by (rule alloc_step_cursor_context)
    moreover have "context (fst (SapphireEvents_chain s None)) = 0"
      using inv by (simp add: Let_def)
    moreover have "context (intern_chain (snd (alloc_run s cs))) = 0"
      using inv by (rule alloc_run_cursor_context)
    moreover have "\<forall>r \<in> set (fresh_chains (fst (alloc_run s cs))). context r = 0"
      using inv by (auto simp: fresh_chains_run)
    ultimately show ?thesis by simp
  qed
  from init step show ?thesis by blast
qed

theorem cursor_context_zero_witness:
  "context (intern_chain initial_allocator) = 0 \<and>
   map context (fresh_chains (fst (alloc_run initial_allocator
      [CallNewContext, CallChain None, CallNewContext, CallChain None]))) = [0, 0] \<and>
   context (intern_chain (snd (alloc_run initial_allocator
      [CallNewContext, CallChain None, CallNewContext, CallChain None]))) = 0"
  using cursor_context_zero [of initial_allocator None
      "[CallNewContext, CallChain None, CallNewContext, CallChain None]"]
  by (simp add: initial_allocator_def Let_def SapphireEvents_new_context_chain_def
      fresh_chains_def)


section \<open>Properties of overlapping calls\<close>

text \<open>A call whose steps run without another call in between is the call of the first model.\<close>

lemma call_steps_chain:
  "run_schedule s [ChainEntered] [0, 0] =
     (snd (SapphireEvents_chain s None), [Returned (fst (SapphireEvents_chain s None))])"
  by (simp add: Let_def)

lemma call_steps_new_context:
  "run_schedule s [ContextEntered] [0, 0] =
     (snd (SapphireEvents_new_context_chain s),
      [Returned (fst (SapphireEvents_new_context_chain s))])"
  by (simp add: Let_def SapphireEvents_new_context_chain_def)

text \<open>
  Two calls whose steps alternate, from any state: both calls of \<^verbatim>\<open>chain()\<close> return the
  cursor they both read, and the flow advances once; both calls of
  \<^verbatim>\<open>new_context_chain()\<close> return the counter after both increments.
\<close>

lemma chain_overlap:
  "run_schedule s [ChainEntered, ChainEntered] [0, 1, 0, 1] =
     (s\<lparr>intern_chain := \<lparr>context = 0, flow = flow (intern_chain s) + 1\<rparr>\<rparr>,
      [Returned (intern_chain s), Returned (intern_chain s)])"
  by (simp add: Let_def)

lemma new_context_overlap:
  "run_schedule s [ContextEntered, ContextEntered] [0, 1, 0, 1] =
     (s\<lparr>current_context := current_context s + 2\<rparr>,
      [Returned \<lparr>context = current_context s + 2, flow = 0\<rparr>,
       Returned \<lparr>context = current_context s + 2, flow = 0\<rparr>])"
  by (simp add: Let_def)

text \<open>
  Claim C3 asks that \<open>N\<close> calls of \<^verbatim>\<open>SapphireEvents.chain()\<close> without an event return
  \<open>N\<close> distinct flows. The code reads the cursor before it takes the lock. From the initial
  state, two calls that both read before either writes return the chain \<^verbatim>\<open>(0:0)\<close> twice,
  and the cursor ends at flow 1 instead of 2: the two flows are not distinct. The same two
  calls made one after the other return the flows 0 and 1.
\<close>

theorem chain_overlapping_calls_same_flow:
  "run_schedule initial_allocator [ChainEntered, ChainEntered] [0, 1, 0, 1] =
     (\<lparr>intern_chain = \<lparr>context = 0, flow = 1\<rparr>, current_context = 0\<rparr>,
      [Returned \<lparr>context = 0, flow = 0\<rparr>, Returned \<lparr>context = 0, flow = 0\<rparr>]) \<and>
   map flow (returned_chains (snd (run_schedule initial_allocator
     [ChainEntered, ChainEntered] [0, 1, 0, 1]))) = [0, 0] \<and>
   \<not> distinct (map flow (returned_chains (snd (run_schedule initial_allocator
     [ChainEntered, ChainEntered] [0, 1, 0, 1])))) \<and>
   map flow (returned_chains (snd (run_schedule initial_allocator
     [ChainEntered, ChainEntered] [0, 0, 1, 1]))) = [0, 1]"
  by (simp add: initial_allocator_def Let_def)

text \<open>
  Claim C4 asks that \<open>M\<close> calls of \<^verbatim>\<open>SapphireEvents.new_context_chain()\<close> return
  \<open>M\<close> distinct, strictly increasing contexts. The code advances the counter under the lock
  and reads it after the lock is released. From the initial state, two calls that both
  advance before either reads return the context 2 twice, and the context 1 is handed to
  nobody: the two contexts are not distinct. The same two calls made one after the other
  return the contexts 1 and 2.
\<close>

theorem new_context_overlapping_calls_same_context:
  "run_schedule initial_allocator [ContextEntered, ContextEntered] [0, 1, 0, 1] =
     (\<lparr>intern_chain = \<lparr>context = 0, flow = 0\<rparr>, current_context = 2\<rparr>,
      [Returned \<lparr>context = 2, flow = 0\<rparr>, Returned \<lparr>context = 2, flow = 0\<rparr>]) \<and>
   map context (returned_chains (snd (run_schedule initial_allocator
     [ContextEntered, ContextEntered] [0, 1, 0, 1]))) = [2, 2] \<and>
   \<not> distinct (map context (returned_chains (snd (run_schedule initial_allocator
     [ContextEntered, ContextEntered] [0, 1, 0, 1])))) \<and>
   map context (returned_chains (snd (run_schedule initial_allocator
     [ContextEntered, ContextEntered] [0, 0, 1, 1]))) = [1, 2]"
  by (simp add: initial_allocator_def Let_def)

section \<open>Properties of the registry\<close>

lemma built_registry_eq:
  "built_registry =
    [(''Event'', T_Event),
     (''InitCompleteEvent'', T_InitCompleteEvent),
     (''LogEvent'', T_LogEvent),
     (''ShutdownEvent'', T_ShutdownEvent),
     (''UserInputEvent'', T_UserInputEvent),
     (''CommandRegisterEvent'', T_CommandRegisterEvent),
     (''CommandEvent'', T_CommandEvent),
     (''CommandExecutedEvent'', T_CommandExecutedEvent),
     (''ConfirmationEvent'', T_ConfirmationEvent),
     (''ErrorEvent'', T_ErrorEvent),
     (''PromptEvent'', T_PromptEvent),
     (''AIResponseEvent'', T_AIResponseEvent),
     (''ClientActivationEvent'', T_ClientActivationEvent),
     (''TaskRegisterEvent'', T_TaskRegisterEvent),
     (''TaskEvent'', T_TaskEvent),
     (''TaskCompletionEvent'', T_TaskCompletionEvent),
     (''TaskMapUpdatedEvent'', T_TaskMapUpdatedEvent)]"
  by (simp add: built_registry_def SapphireEvents_serialize_def SapphireEvents_dict_def
      issubclass_def)

lemma serialize_empty:
  "SapphireEvents_serialize [] n = SapphireEvents_serialize built_registry n"
  "snd (SapphireEvents_serialize built_registry n) = built_registry"
  by (simp_all add: built_registry_def SapphireEvents_serialize_def Let_def)


lemma serialize_built:
  "SapphireEvents_serialize built_registry n =
     (case map_of built_registry n of
        None \<Rightarrow> Inl (Raised ValueError (''Unknown event: '' @ n))
      | Some t \<Rightarrow> Inr t,
      built_registry)"
  by (simp add: SapphireEvents_serialize_def built_registry_eq)

lemma lookup_built_registry:
  "(\<exists>t. map_of built_registry n = Some t) \<longleftrightarrow>
     n \<in> set concrete_event_names \<or> n = ''Event''"
  unfolding built_registry_eq concrete_event_names_def
  by simp

text \<open>
  Claim C1, as the code has it. Whether the map is still empty or already built, a name
  resolves exactly when it is one of the sixteen names of the concrete event classes or the
  name \<^verbatim>\<open>Event\<close> of the base class; each of the sixteen names resolves to its class,
  \<^verbatim>\<open>Event\<close> resolves to the base class, and after any call the map is the built one.
\<close>

theorem serialize_resolvable_names:
  "((\<exists>t. fst (SapphireEvents_serialize [] n) = Inr t) \<longleftrightarrow>
      n \<in> set concrete_event_names \<or> n = ''Event'') \<and>
   ((\<exists>t. fst (SapphireEvents_serialize built_registry n) = Inr t) \<longleftrightarrow>
      n \<in> set concrete_event_names \<or> n = ''Event'') \<and>
   snd (SapphireEvents_serialize [] n) = built_registry \<and>
   snd (SapphireEvents_serialize built_registry n) = built_registry \<and>
   map (\<lambda>k. fst (SapphireEvents_serialize [] k)) concrete_event_names =
     map Inr concrete_event_types \<and>
   map (\<lambda>k. fst (SapphireEvents_serialize built_registry k)) concrete_event_names =
     map Inr concrete_event_types \<and>
   fst (SapphireEvents_serialize [] ''Event'') = Inr T_Event"
proof -
  have res: "(\<exists>t. fst (SapphireEvents_serialize built_registry n) = Inr t) \<longleftrightarrow>
      n \<in> set concrete_event_names \<or> n = ''Event''"
    unfolding lookup_built_registry[symmetric] serialize_built
    by (cases "map_of built_registry n") simp_all
  have each: "map (\<lambda>k. fst (SapphireEvents_serialize built_registry k)) concrete_event_names =
      map Inr concrete_event_types"
    unfolding serialize_built
    by (simp add: built_registry_eq concrete_event_names_def concrete_event_types_def)
  have base: "fst (SapphireEvents_serialize built_registry ''Event'') = Inr T_Event"
    unfolding serialize_built by (simp add: built_registry_eq)
  show ?thesis
    unfolding serialize_empty using res each base by simp
qed

text \<open>
  Claim C1, as stated, fails: the name \<^verbatim>\<open>Event\<close> is not among the sixteen names, and it
  resolves. \<^verbatim>\<open>issubclass(Event, Event)\<close> holds, so the loop stores the base class too.
\<close>

theorem serialize_base_class_resolves:
  "fst (SapphireEvents_serialize [] ''Event'') = Inr T_Event \<and>
   ''Event'' \<notin> set concrete_event_names"
  unfolding serialize_empty serialize_built
  by (simp add: built_registry_eq concrete_event_names_def)


text \<open>
  Claim C2, as the code has it. A name that is neither one of the sixteen names nor
  \<^verbatim>\<open>Event\<close> makes \<^verbatim>\<open>serialize\<close> raise \<^verbatim>\<open>ValueError\<close> with the text
  \<^verbatim>\<open>Unknown event: \<close> followed by the name, whether the map was empty or built; the map
  is the built one afterwards. \<^verbatim>\<open>ValueError\<close> is an \<^verbatim>\<open>Exception\<close> and not a
  \<^verbatim>\<open>LookupError\<close>.
\<close>

theorem serialize_unknown_name:
  assumes "n \<notin> set concrete_event_names" and "n \<noteq> ''Event''"
  shows "SapphireEvents_serialize [] n =
           (Inl (Raised ValueError (''Unknown event: '' @ n)), built_registry) \<and>
         SapphireEvents_serialize built_registry n =
           (Inl (Raised ValueError (''Unknown event: '' @ n)), built_registry) \<and>
         exc_issubclass ValueError Exception \<and>
         \<not> exc_issubclass ValueError LookupError"
proof -
  from assms have "\<not> (\<exists>t. map_of built_registry n = Some t)"
    by (simp only: lookup_built_registry) simp
  then have none: "map_of built_registry n = None"
    by simp
  have cls: "exc_issubclass ValueError Exception \<and> \<not> exc_issubclass ValueError LookupError"
    by (simp add: exc_issubclass_def)
  show ?thesis
    unfolding serialize_empty serialize_built none using cls by simp
qed

theorem serialize_unknown_name_witness:
  "''Chain'' \<notin> set concrete_event_names \<and> ''Chain'' \<noteq> ''Event'' \<and>
   SapphireEvents_serialize [] ''Chain'' =
     (Inl (Raised ValueError ''Unknown event: Chain''), built_registry)"
proof -
  have h1: "''Chain'' \<notin> set concrete_event_names"
    by (simp add: concrete_event_names_def)
  have h2: "''Chain'' \<noteq> ''Event''"
    by simp
  from serialize_unknown_name [OF h1 h2] h1 h2 show ?thesis
    by simp
qed

text \<open>
  Claim C2, as stated, fails: the unknown name \<^verbatim>\<open>NotARealEvent\<close> raises an exception
  whose class is not \<^verbatim>\<open>LookupError\<close> nor one of its subclasses.
\<close>

theorem serialize_raises_value_error:
  "''NotARealEvent'' \<notin> set concrete_event_names \<and>
   fst (SapphireEvents_serialize [] ''NotARealEvent'') =
     Inl (Raised ValueError ''Unknown event: NotARealEvent'') \<and>
   \<not> exc_issubclass (exception_class (Raised ValueError ''Unknown event: NotARealEvent''))
       LookupError"
  unfolding serialize_empty serialize_built
  by (simp add: built_registry_eq concrete_event_names_def exc_issubclass_def)


section \<open>Properties of the event classes\<close>

lemma error_event_fields_eq:
  "dataclass_fields T_ErrorEvent =
     [(''sender'', None), (''timestamp'', None), (''chain'', None), (''error'', None)]"
  by (simp add: dataclass_fields_def)

lemma fill_fields_names:
  "fill_fields fs bound = Inr d \<Longrightarrow> map fst d = map fst fs"
  by (induction fs arbitrary: d) (auto split: option.splits sum.splits)


lemma construct_error_event_positional:
  "(\<exists>i. construct T_ErrorEvent args [] = Inr i) \<longleftrightarrow> length args = 4"
proof (cases args)
  case Nil
  then show ?thesis by (simp add: construct_def error_event_fields_eq)
next
  case a: (Cons a as)
  show ?thesis
  proof (cases as)
    case Nil
    with a show ?thesis by (simp add: construct_def error_event_fields_eq)
  next
    case b: (Cons b bs)
    show ?thesis
    proof (cases bs)
      case Nil
      with a b show ?thesis by (simp add: construct_def error_event_fields_eq)
    next
      case c: (Cons c cs)
      show ?thesis
      proof (cases cs)
        case Nil
        with a b c show ?thesis by (simp add: construct_def error_event_fields_eq)
      next
        case d: (Cons d ds)
        with a b c show ?thesis
          by (cases ds) (simp_all add: construct_def error_event_fields_eq)
      qed
    qed
  qed
qed

lemma construct_own_attributes:
  assumes "construct t args kwargs = Inr i"
  shows "inst_type i = t \<and> map fst (inst_dict i) = map fst (dataclass_fields t)"
  using assms
  by (auto simp: construct_def Let_def fill_fields_names split: if_splits sum.splits)

lemma error_event_class_attr:
  "find_class_attr (mro T_ErrorEvent) ''message'' = Some (VType ''str'')"
  by (simp add: class_dict_def)

text \<open>
  Claim C9. The fields of \<^verbatim>\<open>ErrorEvent\<close> are \<^verbatim>\<open>sender\<close>, \<^verbatim>\<open>timestamp\<close>,
  \<^verbatim>\<open>chain\<close> and \<^verbatim>\<open>error\<close>; \<^verbatim>\<open>message\<close> is an attribute of the class, whose value is
  the type object \<^verbatim>\<open>str\<close>. A call with positional arguments constructs an instance exactly
  when there are four of them, and a keyword \<^verbatim>\<open>message\<close> is rejected. Every instance that
  was constructed has the four fields as its own attributes and no \<^verbatim>\<open>message\<close> among
  them: reading \<^verbatim>\<open>message\<close> from it gives the class attribute.
\<close>

theorem error_event_message_not_a_field:
  "map fst (dataclass_fields T_ErrorEvent) = [''sender'', ''timestamp'', ''chain'', ''error''] \<and>
   map_of (class_dict T_ErrorEvent) ''message'' = Some (VType ''str'') \<and>
   construct T_ErrorEvent [s, t, c, e] [] =
     Inr \<lparr>inst_type = T_ErrorEvent,
          inst_dict = [(''sender'', s), (''timestamp'', t), (''chain'', c), (''error'', e)]\<rparr> \<and>
   ((\<exists>i. construct T_ErrorEvent args [] = Inr i) \<longleftrightarrow> length args = 4) \<and>
   construct T_ErrorEvent [s, t, c, e] [(''message'', m)] =
     Inl (Raised TypeError ''unexpected keyword argument message'') \<and>
   (\<forall>i. construct T_ErrorEvent args kwargs = Inr i \<longrightarrow>
      map fst (inst_dict i) = [''sender'', ''timestamp'', ''chain'', ''error''] \<and>
      map_of (inst_dict i) ''message'' = None \<and>
      getattr i ''message'' = Inr (VType ''str''))"
proof -
  have own: "map fst (inst_dict i) = [''sender'', ''timestamp'', ''chain'', ''error''] \<and>
      map_of (inst_dict i) ''message'' = None \<and>
      getattr i ''message'' = Inr (VType ''str'')"
    if ok: "construct T_ErrorEvent args kwargs = Inr i" for i
  proof -
    from construct_own_attributes[OF ok]
    have ty: "inst_type i = T_ErrorEvent"
      and names: "map fst (inst_dict i) = [''sender'', ''timestamp'', ''chain'', ''error'']"
      by (simp_all add: error_event_fields_eq)
    have "''message'' \<notin> set (map fst (inst_dict i))"
      unfolding names by simp
    then have none: "map_of (inst_dict i) ''message'' = None"
      by (simp add: map_of_eq_None_iff)
    have "getattr i ''message'' = Inr (VType ''str'')"
      unfolding getattr_def none ty error_event_class_attr by simp
    with names none show ?thesis by simp
  qed
  have fields: "map fst (dataclass_fields T_ErrorEvent) =
      [''sender'', ''timestamp'', ''chain'', ''error'']"
    by (simp add: error_event_fields_eq)
  have attr: "map_of (class_dict T_ErrorEvent) ''message'' = Some (VType ''str'')"
    by (simp add: class_dict_def)
  have four: "construct T_ErrorEvent [s, t, c, e] [] =
     Inr \<lparr>inst_type = T_ErrorEvent,
          inst_dict = [(''sender'', s), (''timestamp'', t), (''chain'', c), (''error'', e)]\<rparr>"
    by (simp add: construct_def error_event_fields_eq)
  have kw: "construct T_ErrorEvent [s, t, c, e] [(''message'', m)] =
     Inl (Raised TypeError ''unexpected keyword argument message'')"
    by (simp add: construct_def error_event_fields_eq)
  from fields attr four kw own construct_error_event_positional show ?thesis
    by blast
qed

theorem error_event_message_not_a_field_witness:
  "construct T_ErrorEvent [VStr ''core'', VStr ''12:00:00''] 
      [(''error'', VStr ''boom''), (''chain'', VChain \<lparr>context = 0, flow = 7\<rparr>)] =
     Inr \<lparr>inst_type = T_ErrorEvent,
          inst_dict = [(''sender'', VStr ''core''), (''timestamp'', VStr ''12:00:00''),
                       (''chain'', VChain \<lparr>context = 0, flow = 7\<rparr>),
                       (''error'', VStr ''boom'')]\<rparr> \<and>
   getattr \<lparr>inst_type = T_ErrorEvent,
          inst_dict = [(''sender'', VStr ''core''), (''timestamp'', VStr ''12:00:00''),
                       (''chain'', VChain \<lparr>context = 0, flow = 7\<rparr>),
                       (''error'', VStr ''boom'')]\<rparr> ''message'' = Inr (VType ''str'')"
proof -
  let ?i = "\<lparr>inst_type = T_ErrorEvent,
          inst_dict = [(''sender'', VStr ''core''), (''timestamp'', VStr ''12:00:00''),
                       (''chain'', VChain \<lparr>context = 0, flow = 7\<rparr>),
                       (''error'', VStr ''boom'')]\<rparr>"
  have ok: "construct T_ErrorEvent [VStr ''core'', VStr ''12:00:00'']
      [(''error'', VStr ''boom''), (''chain'', VChain \<lparr>context = 0, flow = 7\<rparr>)] = Inr ?i"
    by (simp add: construct_def error_event_fields_eq)
  from error_event_message_not_a_field
    [of _ _ _ _ "[VStr ''core'', VStr ''12:00:00'']" _
        "[(''error'', VStr ''boom''), (''chain'', VChain \<lparr>context = 0, flow = 7\<rparr>)]"]
  have "getattr ?i ''message'' = Inr (VType ''str'')"
    using ok by blast
  with ok show ?thesis by simp
qed


section \<open>Properties of the logger\<close>

lemma levels_lookup:
  "map_of LEVELS level = Some r \<longleftrightarrow>
     (level = ''debug'' \<and> r = 0) \<or> (level = ''info'' \<and> r = 1) \<or>
     (level = ''warning'' \<and> r = 2) \<or> (level = ''critical'' \<and> r = 3)"
  by (auto simp: LEVELS_def)

lemma level_has_color:
  "map_of LEVELS level = Some r \<Longrightarrow> \<exists>color. map_of Color_level_map level = Some color"
  by (auto simp: levels_lookup Color_level_map_def)

lemma append_file_lookup:
  "map_of (files (append_file path text w)) path =
     Some ((case map_of (files w) path of Some old \<Rightarrow> old | None \<Rightarrow> []) @ text)"
  by (simp add: append_file_def update_conv')

lemma append_file_others:
  "p \<noteq> path \<Longrightarrow> map_of (files (append_file path text w)) p = map_of (files w) p"
  by (simp add: append_file_def update_conv')

lemma append_file_stdout: "stdout (append_file path text w) = stdout w"
  by (simp add: append_file_def)

lemma append_file_changes:
  assumes "text \<noteq> []"
  shows "files (append_file path text w) \<noteq> files w"
proof
  assume "files (append_file path text w) = files w"
  then have "map_of (files (append_file path text w)) path = map_of (files w) path"
    by simp
  with assms show False
    unfolding append_file_lookup by (cases "map_of (files w) path") simp_all
qed

lemma file_log_str_nonempty: "file_log_str b level message \<noteq> []"
  by (simp add: file_log_str_def)

lemma handle_log_event:
  assumes r: "map_of LEVELS level = Some r"
    and t: "map_of LEVELS (log_level L) = Some t"
    and color: "map_of Color_level_map level = Some color"
  shows "Logger_handle L (LogEvent b level message) w =
     (None,
      if t \<le> r
        then (if truthy (to_terminal L)
                then (Logger_file_log L b level message w)
                       \<lparr>stdout := stdout w @ terminal_log_str b level color message @ [CHR 0x0A]\<rparr>
              else Logger_file_log L b level message w)
      else w)"
  using r t color
  by (simp add: Logger_terminal_log_def Logger_file_log_def append_file_stdout Let_def)


text \<open>
  Claim C5. The ranks are \<^verbatim>\<open>debug\<close> 0, \<^verbatim>\<open>info\<close> 1, \<^verbatim>\<open>warning\<close> 2, \<^verbatim>\<open>critical\<close> 3. For a
  log event whose level has rank \<open>r\<close>, handled by a logger whose level has rank \<open>t\<close>,
  \<^verbatim>\<open>handle\<close> raises nothing, and the world changes exactly when \<open>t \<le> r\<close>. Below the
  threshold the world is left as it was: no file line, no terminal line, nothing kept. At
  or above it the file sink appends its line to the log file, and the terminal sink prints
  its line exactly when \<^verbatim>\<open>to_terminal\<close> is true.
\<close>

theorem handle_level_filter:
  assumes r: "map_of LEVELS level = Some r"
    and t: "map_of LEVELS (log_level L) = Some t"
  shows "map (map_of LEVELS) [''debug'', ''info'', ''warning'', ''critical''] =
           [Some 0, Some 1, Some 2, Some 3] \<and>
         fst (Logger_handle L (LogEvent b level message) w) = None \<and>
         (let w' = snd (Logger_handle L (LogEvent b level message) w)
          in (w' \<noteq> w \<longleftrightarrow> t \<le> r) \<and>
             (r < t \<longrightarrow> w' = w) \<and>
             (t \<le> r \<longrightarrow>
                files w' = files (Logger_file_log L b level message w) \<and>
                map_of (files w') (log_file L) =
                  Some ((case map_of (files w) (log_file L) of Some old \<Rightarrow> old | None \<Rightarrow> []) @
                        file_log_str b level message) \<and>
                (truthy (to_terminal L) \<longrightarrow>
                   (\<exists>color. map_of Color_level_map level = Some color \<and>
                      stdout w' =
                        stdout w @ terminal_log_str b level color message @ [CHR 0x0A])) \<and>
                (\<not> truthy (to_terminal L) \<longrightarrow> stdout w' = stdout w)))"
proof -
  from level_has_color[OF r] obtain color
    where color: "map_of Color_level_map level = Some color" ..
  note h = handle_log_event[OF r t color, of b message w]
  let ?w' = "snd (Logger_handle L (LogEvent b level message) w)"
  have order: "map (map_of LEVELS) [''debug'', ''info'', ''warning'', ''critical''] =
      [Some 0, Some 1, Some 2, Some 3]"
    by (simp add: LEVELS_def)
  have exc: "fst (Logger_handle L (LogEvent b level message) w) = None"
    unfolding h by simp
  have dropped: "?w' = w" if "r < t"
    unfolding h using that by simp
  have accepted: "files ?w' = files (Logger_file_log L b level message w) \<and>
      (truthy (to_terminal L) \<longrightarrow>
         stdout ?w' = stdout w @ terminal_log_str b level color message @ [CHR 0x0A]) \<and>
      (\<not> truthy (to_terminal L) \<longrightarrow> stdout ?w' = stdout w)" if "t \<le> r"
    unfolding h using that by (simp add: Logger_file_log_def append_file_stdout)
  have written: "map_of (files (Logger_file_log L b level message w)) (log_file L) =
      Some ((case map_of (files w) (log_file L) of Some old \<Rightarrow> old | None \<Rightarrow> []) @
            file_log_str b level message)"
    by (simp add: Logger_file_log_def append_file_lookup)
  have changed: "?w' \<noteq> w" if le: "t \<le> r"
  proof
    assume "?w' = w"
    then have "files ?w' = files w" by simp
    with accepted[OF le] have "files (Logger_file_log L b level message w) = files w"
      by simp
    then show False
      using append_file_changes[OF file_log_str_nonempty]
      by (simp add: Logger_file_log_def)
  qed
  have iff: "?w' \<noteq> w \<longleftrightarrow> t \<le> r"
    using changed dropped by (cases "t \<le> r") auto
  show ?thesis
    unfolding Let_def
    using order exc iff dropped accepted written color by auto
qed

theorem handle_level_filter_witness:
  "Logger_handle \<lparr>log_file = ''x.log'', log_level = ''warning'', to_terminal = CfgBool True\<rparr>
     (LogEvent \<lparr>sender = ''core'', timestamp = ''12:00:00'', chain = \<lparr>context = 0, flow = 0\<rparr>\<rparr>
        ''debug'' ''quiet'')
     \<lparr>files = [], stdout = []\<rparr> = (None, \<lparr>files = [], stdout = []\<rparr>) \<and>
   files (snd (Logger_handle
     \<lparr>log_file = ''x.log'', log_level = ''warning'', to_terminal = CfgBool True\<rparr>
     (LogEvent \<lparr>sender = ''core'', timestamp = ''12:00:00'', chain = \<lparr>context = 0, flow = 0\<rparr>\<rparr>
        ''critical'' ''bad'')
     \<lparr>files = [], stdout = []\<rparr>)) =
     [(''x.log'', ''[12:00:00] [CRITICAL] (Core) bad'' @ [CHR 0x0A])]"
proof -
  let ?L = "\<lparr>log_file = ''x.log'', log_level = ''warning'', to_terminal = CfgBool True\<rparr>"
  let ?b = "\<lparr>sender = ''core'', timestamp = ''12:00:00'', chain = \<lparr>context = 0, flow = 0\<rparr>\<rparr>"
  let ?w = "\<lparr>files = [], stdout = []\<rparr>"
  have d: "map_of LEVELS ''debug'' = Some 0" and c: "map_of LEVELS ''critical'' = Some 3"
    and t: "map_of LEVELS (log_level ?L) = Some 2"
    by (simp_all add: LEVELS_def)
  from handle_level_filter[OF d t, of ?b "''quiet''" ?w]
  have "Logger_handle ?L (LogEvent ?b ''debug'' ''quiet'') ?w = (None, ?w)"
    by (simp add: Let_def LEVELS_def)
  moreover from handle_level_filter[OF c t, of ?b "''bad''" ?w]
  have "files (snd (Logger_handle ?L (LogEvent ?b ''critical'' ''bad'') ?w)) =
      [(''x.log'', ''[12:00:00] [CRITICAL] (Core) bad'' @ [CHR 0x0A])]"
    by (simp add: Let_def LEVELS_def Logger_file_log_def Logger_terminal_log_def
        Color_level_map_def append_file_def file_log_str_def str_upper_def
        upper_char_def lower_char_def)
  ultimately show ?thesis by simp
qed


lemma upper_char_newline: "upper_char c = CHR 0x0A \<longleftrightarrow> c = CHR 0x0A"
  by (simp add: upper_char_def)

lemma lower_char_newline: "lower_char c = CHR 0x0A \<longleftrightarrow> c = CHR 0x0A"
  by (simp add: lower_char_def)

lemma count_newline_upper:
  "count_list (str_upper s) (CHR 0x0A) = count_list s (CHR 0x0A)"
  by (induction s) (simp_all add: str_upper_def upper_char_newline)

lemma count_newline_lower:
  "count_list (map lower_char s) (CHR 0x0A) = count_list s (CHR 0x0A)"
  by (induction s) (simp_all add: lower_char_newline)

lemma count_newline_capitalize:
  "count_list (str_capitalize s) (CHR 0x0A) = count_list s (CHR 0x0A)"
  by (cases s) (simp_all add: count_newline_lower upper_char_newline)

lemma file_log_str_newlines:
  "count_list (file_log_str b level message) (CHR 0x0A) =
     count_list (timestamp b) (CHR 0x0A) + count_list level (CHR 0x0A) +
     count_list (sender b) (CHR 0x0A) + count_list message (CHR 0x0A) + 1"
  by (simp add: file_log_str_def count_newline_upper count_newline_capitalize)


text \<open>
  Claim C6. \<^verbatim>\<open>Logger.file_log\<close> appends to the log file the text
  \<^verbatim>\<open>[timestamp] [LEVEL] (Sender) message\<close> and a newline, with the level in upper case and
  the sender capitalized (first character in upper case, the others in lower case, so
  \<^verbatim>\<open>taskManager\<close> prints as \<^verbatim>\<open>Taskmanager\<close>); no other file changes and nothing is
  printed. When no field holds
  a newline the text is one line. For an accepted event the file sink of \<^verbatim>\<open>handle\<close> is
  this write. The four levels print as \<^verbatim>\<open>DEBUG\<close>, \<^verbatim>\<open>INFO\<close>, \<^verbatim>\<open>WARNING\<close>,
  \<^verbatim>\<open>CRITICAL\<close>. The event of sender \<^verbatim>\<open>logger\<close>, level \<^verbatim>\<open>info\<close> and message
  \<^verbatim>\<open>ready\<close> gives \<^verbatim>\<open>[ts] [INFO] (Logger) ready\<close> for its timestamp \<open>ts\<close>, and
  \<^verbatim>\<open>[13:05:09] [INFO] (Logger) ready\<close> when it was stamped at 13:05:09.
\<close>

theorem file_log_appends_line:
  "map_of (files (Logger_file_log L b level message w)) (log_file L) =
     Some ((case map_of (files w) (log_file L) of Some old \<Rightarrow> old | None \<Rightarrow> []) @
           ''['' @ timestamp b @ ''] ['' @ str_upper level @ ''] ('' @
           str_capitalize (sender b) @ '') '' @ message @ [CHR 0x0A]) \<and>
   (\<forall>p. p \<noteq> log_file L \<longrightarrow>
      map_of (files (Logger_file_log L b level message w)) p = map_of (files w) p) \<and>
   stdout (Logger_file_log L b level message w) = stdout w \<and>
   (count_list (timestamp b @ level @ sender b @ message) (CHR 0x0A) = 0 \<longrightarrow>
      count_list (file_log_str b level message) (CHR 0x0A) = 1) \<and>
   (map_of LEVELS level = Some r \<and> map_of LEVELS (log_level L) = Some t \<and> t \<le> r \<longrightarrow>
      files (snd (Logger_handle L (LogEvent b level message) w)) =
        files (Logger_file_log L b level message w)) \<and>
   map str_upper [''debug'', ''info'', ''warning'', ''critical''] =
     [''DEBUG'', ''INFO'', ''WARNING'', ''CRITICAL''] \<and>
   str_capitalize ''taskManager'' = ''Taskmanager'' \<and>
   file_log_str \<lparr>sender = ''logger'', timestamp = ts, chain = c\<rparr> ''info'' ''ready'' =
     ''['' @ ts @ ''] [INFO] (Logger) ready'' @ [CHR 0x0A] \<and>
   file_log_str \<lparr>sender = ''logger'', timestamp = SapphireEvents_make_timestamp (13, 5, 9),
                  chain = c\<rparr> ''info'' ''ready'' =
     ''[13:05:09] [INFO] (Logger) ready'' @ [CHR 0x0A]"
proof -
  have line: "map_of (files (Logger_file_log L b level message w)) (log_file L) =
     Some ((case map_of (files w) (log_file L) of Some old \<Rightarrow> old | None \<Rightarrow> []) @
           ''['' @ timestamp b @ ''] ['' @ str_upper level @ ''] ('' @
           str_capitalize (sender b) @ '') '' @ message @ [CHR 0x0A])"
    by (simp add: Logger_file_log_def append_file_lookup file_log_str_def)
  have others: "\<forall>p. p \<noteq> log_file L \<longrightarrow>
      map_of (files (Logger_file_log L b level message w)) p = map_of (files w) p"
    by (simp add: Logger_file_log_def append_file_others)
  have out: "stdout (Logger_file_log L b level message w) = stdout w"
    by (simp add: Logger_file_log_def append_file_stdout)
  have one: "count_list (timestamp b @ level @ sender b @ message) (CHR 0x0A) = 0 \<longrightarrow>
      count_list (file_log_str b level message) (CHR 0x0A) = 1"
    by (simp add: file_log_str_newlines)
  have accepted: "files (snd (Logger_handle L (LogEvent b level message) w)) =
        files (Logger_file_log L b level message w)"
    if r: "map_of LEVELS level = Some r" and t: "map_of LEVELS (log_level L) = Some t"
      and le: "t \<le> r"
  proof -
    from level_has_color[OF r] obtain color
      where "map_of Color_level_map level = Some color" ..
    from handle_log_event[OF r t this, of b message w] le show ?thesis
      by simp
  qed
  have upper: "map str_upper [''debug'', ''info'', ''warning'', ''critical''] =
     [''DEBUG'', ''INFO'', ''WARNING'', ''CRITICAL'']"
    by (simp add: str_upper_def upper_char_def)
  have cap: "str_capitalize ''taskManager'' = ''Taskmanager''"
    by (simp add: upper_char_def lower_char_def)
  have ready: "file_log_str \<lparr>sender = ''logger'', timestamp = ts, chain = c\<rparr> ''info'' ''ready'' =
     ''['' @ ts @ ''] [INFO] (Logger) ready'' @ [CHR 0x0A]" for ts
    by (simp add: file_log_str_def str_upper_def upper_char_def lower_char_def)
  have stamp: "SapphireEvents_make_timestamp (13, 5, 9) = ''13:05:09''"
    by (simp add: SapphireEvents_make_timestamp_def two_digits_def digit_char_def)
  have ready': "file_log_str \<lparr>sender = ''logger'',
        timestamp = SapphireEvents_make_timestamp (13, 5, 9), chain = c\<rparr> ''info'' ''ready'' =
     ''[13:05:09] [INFO] (Logger) ready'' @ [CHR 0x0A]"
    unfolding ready stamp by simp
  from line others out one accepted upper cap ready ready' show ?thesis
    by blast
qed

theorem file_log_appends_line_witness:
  "files (Logger_file_log
     \<lparr>log_file = ''sapphire.log'', log_level = ''info'', to_terminal = CfgBool False\<rparr>
     \<lparr>sender = ''logger'', timestamp = ''13:05:09'', chain = \<lparr>context = 0, flow = 0\<rparr>\<rparr>
     ''info'' ''ready''
     \<lparr>files = [(''other.txt'', ''x''), (''sapphire.log'', ''old line'' @ [CHR 0x0A])],
        stdout = []\<rparr>) =
     [(''other.txt'', ''x''),
      (''sapphire.log'', ''old line'' @ [CHR 0x0A] @
          ''[13:05:09] [INFO] (Logger) ready'' @ [CHR 0x0A])] \<and>
   count_list (file_log_str
     \<lparr>sender = ''logger'', timestamp = ''13:05:09'', chain = \<lparr>context = 0, flow = 0\<rparr>\<rparr>
     ''info'' ''ready'') (CHR 0x0A) = 1 \<and>
   files (snd (Logger_handle
     \<lparr>log_file = ''sapphire.log'', log_level = ''info'', to_terminal = CfgBool False\<rparr>
     (LogEvent \<lparr>sender = ''logger'', timestamp = ''13:05:09'',
                chain = \<lparr>context = 0, flow = 0\<rparr>\<rparr> ''info'' ''ready'')
     \<lparr>files = [(''other.txt'', ''x''), (''sapphire.log'', ''old line'' @ [CHR 0x0A])],
        stdout = []\<rparr>)) =
     [(''other.txt'', ''x''),
      (''sapphire.log'', ''old line'' @ [CHR 0x0A] @
          ''[13:05:09] [INFO] (Logger) ready'' @ [CHR 0x0A])]"
  using file_log_appends_line [of
      "\<lparr>log_file = ''sapphire.log'', log_level = ''info'', to_terminal = CfgBool False\<rparr>"
      "\<lparr>sender = ''logger'', timestamp = ''13:05:09'', chain = \<lparr>context = 0, flow = 0\<rparr>\<rparr>"
      "''info''" "''ready''"
      "\<lparr>files = [(''other.txt'', ''x''), (''sapphire.log'', ''old line'' @ [CHR 0x0A])],
         stdout = []\<rparr>" 1 1]
  by (simp add: LEVELS_def Logger_file_log_def append_file_def file_log_str_def str_upper_def
      upper_char_def lower_char_def)


lemma start_fallback:
  assumes logfile: "config_get config ''logfile'' (CfgStr ''sapphire.log'') = CfgStr file"
    and level: "config_get config ''level'' (CfgStr ''info'') = CfgStr l"
    and bad: "l \<notin> {''debug'', ''info'', ''warning'', ''critical''}"
  shows "Logger_start clock abspath config a =
     (Inr \<lparr>log_file = file, log_level = ''info'',
           to_terminal = config_get config ''terminal'' (CfgBool True)\<rparr>,
      a\<lparr>intern_chain := \<lparr>context = 0, flow = flow (intern_chain a) + 2\<rparr>\<rparr>,
      [SapphireModule_log Logger_name (SapphireEvents_make_timestamp (clock 0))
         (intern_chain a) ''info'' (''Now logging into file: '' @ abspath file),
       SapphireModule_log Logger_name (SapphireEvents_make_timestamp (clock 1))
         \<lparr>context = 0, flow = flow (intern_chain a) + 1\<rparr> ''warning''
         (''Invalid log level specified in config.toml '' @ [CHR 0x27] @ l @ [CHR 0x27] @
          ''. Defaulting to '' @ [CHR 0x27] @ ''info'' @ [CHR 0x27])])"
  using bad
  by (simp add: Logger_start_def logfile level Let_def LEVELS_def)

text \<open>
  Claim C7. With a log file setting that is a string (or left to its default) and a level
  setting that is a string other than \<^verbatim>\<open>debug\<close>, \<^verbatim>\<open>info\<close>, \<^verbatim>\<open>warning\<close>,
  \<^verbatim>\<open>critical\<close>, \<^verbatim>\<open>Logger.start\<close> raises nothing and leaves the logger with level
  \<^verbatim>\<open>info\<close>. It emits two log events, the first of level \<^verbatim>\<open>info\<close>; exactly one is of
  level \<^verbatim>\<open>warning\<close>, and it names the rejected value and the fallback. The logger then
  filters at \<^verbatim>\<open>info\<close>: a \<^verbatim>\<open>debug\<close> event changes nothing, an \<^verbatim>\<open>info\<close> event is
  written.
\<close>

theorem start_invalid_level:
  assumes logfile: "config_get config ''logfile'' (CfgStr ''sapphire.log'') = CfgStr file"
    and level: "config_get config ''level'' (CfgStr ''info'') = CfgStr l"
    and bad: "l \<notin> {''debug'', ''info'', ''warning'', ''critical''}"
  shows "(let (outcome, a', emitted) = Logger_start clock abspath config a
          in outcome = Inr \<lparr>log_file = file, log_level = ''info'',
                             to_terminal = config_get config ''terminal'' (CfgBool True)\<rparr> \<and>
             filter (\<lambda>e. event_level e = Some ''warning'') emitted =
               [LogEvent \<lparr>sender = ''logger'',
                          timestamp = SapphireEvents_make_timestamp (clock 1),
                          chain = \<lparr>context = 0, flow = flow (intern_chain a) + 1\<rparr>\<rparr>
                  ''warning''
                  (''Invalid log level specified in config.toml '' @ [CHR 0x27] @ l @
                   [CHR 0x27] @ ''. Defaulting to '' @ [CHR 0x27] @ ''info'' @ [CHR 0x27])] \<and>
             length (filter (\<lambda>e. event_level e = Some ''warning'') emitted) = 1 \<and>
             map event_level emitted = [Some ''info'', Some ''warning''] \<and>
             (\<forall>L. outcome = Inr L \<longrightarrow>
                Logger_handle L (LogEvent b ''debug'' message) w = (None, w) \<and>
                files (snd (Logger_handle L (LogEvent b ''info'' message) w)) =
                  files (Logger_file_log L b ''info'' message w)))"
proof -
  have quiet: "Logger_handle L (LogEvent b ''debug'' message) w = (None, w)"
    if "log_level L = ''info''" for L
    using that by (simp add: LEVELS_def)
  have loud: "files (snd (Logger_handle L (LogEvent b ''info'' message) w)) =
      files (Logger_file_log L b ''info'' message w)"
    if "log_level L = ''info''" for L
    using that
    by (simp add: LEVELS_def Let_def Logger_terminal_log_def Color_level_map_def)
  show ?thesis
    unfolding start_fallback[OF logfile level bad]
    using quiet loud
    by (simp add: SapphireModule_log_def Logger_name_def)
qed

theorem start_invalid_level_witness:
  "Logger_start (\<lambda>n. (9, 30, n)) (\<lambda>p. ''/srv/'' @ p) [(''level'', CfgStr ''verbose'')]
     initial_allocator =
   (Inr \<lparr>log_file = ''sapphire.log'', log_level = ''info'', to_terminal = CfgBool True\<rparr>,
    \<lparr>intern_chain = \<lparr>context = 0, flow = 2\<rparr>, current_context = 0\<rparr>,
    [LogEvent \<lparr>sender = ''logger'', timestamp = ''09:30:00'',
               chain = \<lparr>context = 0, flow = 0\<rparr>\<rparr>
       ''info'' ''Now logging into file: /srv/sapphire.log'',
     LogEvent \<lparr>sender = ''logger'', timestamp = ''09:30:01'',
               chain = \<lparr>context = 0, flow = 1\<rparr>\<rparr>
       ''warning''
       (''Invalid log level specified in config.toml '' @ [CHR 0x27] @ ''verbose'' @
        [CHR 0x27] @ ''. Defaulting to '' @ [CHR 0x27] @ ''info'' @ [CHR 0x27])])"
proof -
  let ?config = "[(''level'', CfgStr ''verbose'')]"
  have logfile: "config_get ?config ''logfile'' (CfgStr ''sapphire.log'') = CfgStr ''sapphire.log''"
    by (simp add: config_get_def)
  have level: "config_get ?config ''level'' (CfgStr ''info'') = CfgStr ''verbose''"
    by (simp add: config_get_def)
  have bad: "''verbose'' \<notin> {''debug'', ''info'', ''warning'', ''critical''}"
    by simp
  from start_invalid_level[OF logfile level bad,
      of "\<lambda>n. (9, 30, n)" "\<lambda>p. ''/srv/'' @ p" initial_allocator]
  show ?thesis
    by (simp add: Logger_start_def config_get_def Let_def LEVELS_def SapphireModule_log_def
        Logger_name_def initial_allocator_def SapphireEvents_make_timestamp_def
        two_digits_def digit_char_def)
qed


end
